theory Spec2Isabelle
  imports Main
begin

section \<open>JavaScript values of a parsed JSON request body\<close>

text \<open>
  \<open>bodyParser.json()\<close> hands every handler \<open>req.body\<close> as a parsed JSON object. A property
  read \<open>req.body[field]\<close> is a \<open>json option\<close>: \<open>None\<close> is JavaScript's \<open>undefined\<close> (the key
  is absent), so \<open>field in req.body\<close> is \<open>req.body field \<noteq> None\<close>. Numbers are kept as
  integers: the handlers only test a number for being zero.
\<close>

datatype json =
    JNull
  | JBool bool
  | JNum int
  | JStr string
  | JArr "json list"
  | JObj "(string \<times> json) list"

type_synonym jsobject = "string \<rightharpoonup> json"

text \<open>JavaScript's \<open>ToBoolean\<close>, the test behind \<open>!req.body[field]\<close> and \<open>a && b\<close>.\<close>

fun truthy :: "json option \<Rightarrow> bool" where
  "truthy None = False"
| "truthy (Some JNull) = False"
| "truthy (Some (JBool b)) = b"
| "truthy (Some (JNum n)) = (n \<noteq> 0)"
| "truthy (Some (JStr s)) = (s \<noteq> [])"
| "truthy (Some (JArr xs)) = True"
| "truthy (Some (JObj kvs)) = True"

text \<open>\<open>Array.prototype.findIndex\<close>: the index of the first element that passes, or \<open>-1\<close>.\<close>

fun findIndex :: "('a \<Rightarrow> bool) \<Rightarrow> 'a list \<Rightarrow> int" where
  "findIndex P [] = - 1"
| "findIndex P (x # xs) =
     (if P x then 0 else (let i = findIndex P xs in if i = - 1 then - 1 else i + 1))"

text \<open>
  \<open>String.prototype.trim\<close>, a character being a code unit below 256: white space and
  line terminators go from both ends.
\<close>

definition is_space :: "char \<Rightarrow> bool" where
  "is_space c = (c \<in> {CHR 0x20, CHR 0x09, CHR 0x0A, CHR 0x0B, CHR 0x0C, CHR 0x0D, CHR 0xA0})"

definition trim :: "string \<Rightarrow> string" where
  "trim s = rev (dropWhile is_space (rev (dropWhile is_space s)))"


section \<open>The models (\<open>models.js\<close>) and the document store\<close>

text \<open>
  A stored user and a stored blog post, with the fields of \<open>UserSchema\<close> and
  \<open>blogPostSchema\<close>; \<open>uid\<close> and \<open>pid\<close> are the documents' \<open>_id\<close>, written as the string form
  of the ObjectId that the routes receive in \<open>req.params.id\<close>. \<open>password\<close> holds the digest.
  \<open>title\<close> and \<open>content\<close> are \<open>None\<close> when the document holds no value there.
\<close>

record user =
  uid :: string
  username :: string
  password :: string
  firstName :: string
  lastName :: string

record blogPost =
  pid :: string
  author_firstName :: string
  author_lastName :: string
  title :: "string option"
  content :: "string option"
  created :: nat

record db =
  users :: "user list"
  posts :: "blogPost list"

text \<open>
  What a request takes from outside the program: the bcryptjs capability (\<open>compare\<close>,
  \<open>hash\<close>), the store driver's cast of a value that is neither a string nor \<open>null\<close> to a
  \<open>String\<close> path (\<open>None\<close>: the cast fails), its test for a well-formed ObjectId, the
  ObjectId it assigns to the document this request creates, and \<open>Date.now\<close>.
\<close>

record env =
  bcrypt_compare :: "string \<Rightarrow> string \<Rightarrow> bool"
  bcrypt_hash :: "string \<Rightarrow> string"
  castOther :: "json \<Rightarrow> string option"
  validObjectId :: "string \<Rightarrow> bool"
  newObjectId :: string
  date_now :: nat

datatype store_error = ValidationError | CastErr | DuplicateKey

datatype cast = CastError | NoValue | Str string

text \<open>
  Modelled from the spec: the document store is Mongoose, a dependency that is not under
  \<open>src/\<close>; section 4.1 and 4.2 of the specification name its operations, \<open>models.js\<close> gives the
  schemas they enforce. A \<open>String\<close> path keeps a string, keeps no value for \<open>undefined\<close>
  and \<open>null\<close>, and asks the driver about anything else.
\<close>

fun castString :: "env \<Rightarrow> json option \<Rightarrow> cast" where
  "castString e None = NoValue"
| "castString e (Some JNull) = NoValue"
| "castString e (Some (JStr s)) = Str s"
| "castString e (Some j) = (case castOther e j of None \<Rightarrow> CastError | Some s \<Rightarrow> Str s)"

fun cast_value :: "cast \<Rightarrow> string option" where
  "cast_value (Str s) = Some s"
| "cast_value c = None"

fun cast_default :: "string \<Rightarrow> cast \<Rightarrow> string" where
  "cast_default d (Str s) = s"
| "cast_default d c = d"

text \<open>First-match removal and update, as \<open>findOneAndRemove\<close> and \<open>findOneAndUpdate\<close> do.\<close>

fun remove_first :: "('a \<Rightarrow> bool) \<Rightarrow> 'a list \<Rightarrow> 'a list" where
  "remove_first P [] = []"
| "remove_first P (x # xs) = (if P x then xs else x # remove_first P xs)"

fun update_first :: "('a \<Rightarrow> bool) \<Rightarrow> ('a \<Rightarrow> 'a) \<Rightarrow> 'a list \<Rightarrow> 'a list" where
  "update_first P f [] = []"
| "update_first P f (x # xs) = (if P x then f x # xs else x # update_first P f xs)"

subsection \<open>Users\<close>

definition User_findOne :: "db \<Rightarrow> string \<Rightarrow> user option" where
  "User_findOne st uname = find (\<lambda>u. username u = uname) (users st)"

definition User_count :: "db \<Rightarrow> string \<Rightarrow> nat" where
  "User_count st uname = length (filter (\<lambda>u. username u = uname) (users st))"

text \<open>\<open>UserSchema.methods.validatePassword\<close> and \<open>UserSchema.statics.hashPassword\<close>.\<close>

definition validatePassword :: "env \<Rightarrow> user \<Rightarrow> string \<Rightarrow> bool" where
  "validatePassword e u pw = bcrypt_compare e pw (password u)"

definition hashPassword :: "env \<Rightarrow> string \<Rightarrow> string" where
  "hashPassword e pw = bcrypt_hash e pw"

text \<open>
  The value that the promise chain of \<open>POST /users\<close> passes to \<open>User.create\<close> as
  \<open>password\<close>: the digest, or the response object that \<open>res.status(422).json(...)\<close> returned.
\<close>

datatype hashv = Hash string | ResObject

text \<open>
  Modelled from the spec: \<open>User.create\<close> of the store (section 4.1: it fails with
  DuplicateKey when the username exists). \<open>username\<close> and \<open>password\<close> are required
  strings, \<open>firstName\<close> and \<open>lastName\<close> default to the empty string, \<open>username\<close> is unique.
\<close>

definition User_create ::
  "env \<Rightarrow> db \<Rightarrow> string \<Rightarrow> hashv \<Rightarrow> json option \<Rightarrow> json option \<Rightarrow> store_error + (user \<times> db)" where
  "User_create e st uname h fn ln =
     (case h of
        ResObject \<Rightarrow> Inl ValidationError
      | Hash d \<Rightarrow>
          if castString e fn = CastError \<or> castString e ln = CastError then Inl ValidationError
          else if uname = [] \<or> d = [] then Inl ValidationError
          else if User_count st uname > 0 \<or> newObjectId e \<in> set (map uid (users st))
            then Inl DuplicateKey
          else
            (let u = \<lparr>uid = newObjectId e, username = uname, password = d,
                      firstName = cast_default [] (castString e fn),
                      lastName = cast_default [] (castString e ln)\<rparr>
             in Inr (u, st\<lparr>users := users st @ [u]\<rparr>)))"

subsection \<open>Blog posts\<close>

text \<open>
  Modelled from the spec: the post store of section 4.2 (\<open>create\<close>, \<open>listAll\<close>, \<open>findById\<close>,
  \<open>updateFields\<close>, \<open>deleteById\<close>) under \<open>blogPostSchema\<close>: \<open>title\<close> is a required, non-empty
  string, \<open>content\<close> is optional, \<open>created\<close> defaults to the time of creation, \<open>_id\<close> is
  unique. An id that is no ObjectId makes every lookup by id fail with a cast error.
\<close>

definition BlogPost_create ::
  "env \<Rightarrow> db \<Rightarrow> json option \<Rightarrow> json option \<Rightarrow> string \<Rightarrow> string \<Rightarrow> store_error + (blogPost \<times> db)" where
  "BlogPost_create e st t c fn ln =
     (case castString e t of
        CastError \<Rightarrow> Inl ValidationError
      | NoValue \<Rightarrow> Inl ValidationError
      | Str ts \<Rightarrow>
          if ts = [] \<or> castString e c = CastError then Inl ValidationError
          else if newObjectId e \<in> set (map pid (posts st)) then Inl DuplicateKey
          else
            (let p = \<lparr>pid = newObjectId e, author_firstName = fn, author_lastName = ln,
                      title = Some ts, content = cast_value (castString e c),
                      created = date_now e\<rparr>
             in Inr (p, st\<lparr>posts := posts st @ [p]\<rparr>)))"

definition BlogPost_find :: "db \<Rightarrow> blogPost list" where
  "BlogPost_find st = posts st"

definition BlogPost_findById :: "env \<Rightarrow> db \<Rightarrow> string \<Rightarrow> store_error + blogPost option" where
  "BlogPost_findById e st i =
     (if \<not> validObjectId e i then Inl CastErr else Inr (find (\<lambda>p. pid p = i) (posts st)))"

definition BlogPost_findByIdAndRemove ::
  "env \<Rightarrow> db \<Rightarrow> string \<Rightarrow> store_error + (blogPost option \<times> db)" where
  "BlogPost_findByIdAndRemove e st i =
     (if \<not> validObjectId e i then Inl CastErr
      else Inr (find (\<lambda>p. pid p = i) (posts st),
                st\<lparr>posts := remove_first (\<lambda>p. pid p = i) (posts st)\<rparr>))"

text \<open>
  One entry of \<open>{$set: updated}\<close>: a key that \<open>updated\<close> lacks leaves the stored value,
  a key it has replaces it by the cast of the new value.
\<close>

fun apply_set :: "env \<Rightarrow> json option \<Rightarrow> string option \<Rightarrow> store_error + string option" where
  "apply_set e None old = Inr old"
| "apply_set e (Some j) old =
     (case castString e (Some j) of
        CastError \<Rightarrow> Inl CastErr
      | NoValue \<Rightarrow> Inr None
      | Str s \<Rightarrow> Inr (Some s))"

definition BlogPost_findByIdAndUpdate ::
  "env \<Rightarrow> db \<Rightarrow> string \<Rightarrow> json option \<Rightarrow> json option \<Rightarrow> store_error + (blogPost option \<times> db)" where
  "BlogPost_findByIdAndUpdate e st i t c =
     (if \<not> validObjectId e i then Inl CastErr
      else case find (\<lambda>p. pid p = i) (posts st) of
        None \<Rightarrow>
          (case (apply_set e t None, apply_set e c None) of
             (Inr _, Inr _) \<Rightarrow> Inr (None, st)
           | _ \<Rightarrow> Inl CastErr)
      | Some p \<Rightarrow>
          (case (apply_set e t (title p), apply_set e c (content p)) of
             (Inr t', Inr c') \<Rightarrow>
               (let p' = p\<lparr>title := t', content := c'\<rparr>
                in Inr (Some p', st\<lparr>posts := update_first (\<lambda>q. pid q = i) (\<lambda>q. p') (posts st)\<rparr>))
           | _ \<Rightarrow> Inl CastErr))"

subsection \<open>Serialisation: \<open>apiRepr\<close>\<close>

datatype user_repr = UserRepr (repr_username: string) (repr_firstName: string) (repr_lastName: string)

datatype post_repr =
  PostRepr (repr_id: string) (repr_author: string) (repr_content: "string option")
           (repr_title: "string option") (repr_created: nat)

text \<open>\<open>this.username || ''\<close> is the string itself: the only falsy string is the empty one.\<close>

definition User_apiRepr :: "user \<Rightarrow> user_repr" where
  "User_apiRepr u = UserRepr (username u) (firstName u) (lastName u)"

definition authorName :: "blogPost \<Rightarrow> string" where
  "authorName p = trim (author_firstName p @ '' '' @ author_lastName p)"

definition apiRepr :: "blogPost \<Rightarrow> post_repr" where
  "apiRepr p = PostRepr (pid p) (authorName p) (content p) (title p) (created p)"


section \<open>Responses and what a handler does\<close>

datatype payload =
    JsonMessage string
  | JsonError string
  | JsonUser user_repr
  | JsonPost post_repr
  | JsonPosts "post_repr list"
  | Text string
  | ErrorPage
  | NoBody

record response =
  status :: nat
  payload :: payload

datatype call =
    User_count_call string
  | User_create_call string
  | BlogPost_find_call
  | BlogPost_findById_call string
  | BlogPost_create_call "json option" "json option" string string
  | BlogPost_findByIdAndRemove_call string
  | BlogPost_findByIdAndUpdate_call string "json option" "json option"

text \<open>
  A handler's behaviour is the sequence of what it did: the one response that went out
  and the store operations it called, in order.
\<close>

datatype event = Sent response | Call call

fun headersSent :: "event list \<Rightarrow> bool" where
  "headersSent [] = False"
| "headersSent (Sent r # es) = True"
| "headersSent (Call c # es) = headersSent es"

fun http_response :: "event list \<Rightarrow> response option" where
  "http_response [] = None"
| "http_response (Sent r # es) = Some r"
| "http_response (Call c # es) = http_response es"

text \<open>
  \<open>res.status(code).json(obj)\<close>. Once a response has gone out, a second one raises
  (the headers cannot be set again): \<open>Inl\<close>, with nothing sent. A response with status
  204 or 304 goes out without its body.
\<close>

definition res_json :: "nat \<Rightarrow> payload \<Rightarrow> event list \<Rightarrow> event list + event list" where
  "res_json code b tr =
     (if headersSent tr then Inl tr
      else Inr (tr @ [Sent \<lparr>status = code,
                           payload = (if code = 204 \<or> code = 304 then NoBody else b)\<rparr>]))"

text \<open>
  A \<open>.catch(err => res.status(code).json(obj))\<close> at the end of a promise chain: what it
  raises itself is a rejection that nobody handles.
\<close>

definition catch_json :: "nat \<Rightarrow> payload \<Rightarrow> event list \<Rightarrow> event list" where
  "catch_json code b tr = (case res_json code b tr of Inl tr' \<Rightarrow> tr' | Inr tr' \<Rightarrow> tr')"

text \<open>
  An exception that leaves a handler synchronously reaches the router's default error
  handler: a 500 page, unless a response has gone out already.
\<close>

definition express_error :: "event list \<Rightarrow> event list" where
  "express_error tr =
     (if headersSent tr then tr else tr @ [Sent \<lparr>status = 500, payload = ErrorPage\<rparr>])"

text \<open>
  The tail \<open>.then(x => res.status(code).json(obj)).catch(err => res.status(500).json(e))\<close>
  of a chain whose earlier steps succeeded.
\<close>

definition then_json :: "nat \<Rightarrow> payload \<Rightarrow> payload \<Rightarrow> event list \<Rightarrow> event list" where
  "then_json code b errb tr =
     (case res_json code b tr of Inr tr' \<Rightarrow> tr' | Inl tr' \<Rightarrow> catch_json 500 errb tr')"


section \<open>The authentication gate (\<open>server.js\<close>, lines 18 to 40)\<close>

text \<open>
  One invocation \<open>callback(null, user, info)\<close> of the strategy's callback: the user, or
  \<open>None\<close> for \<open>false\<close>, and the message of \<open>info\<close> when there is one.
\<close>

datatype callback = Callback "user option" "string option"

text \<open>
  The verify function given to \<open>BasicStrategy\<close>, as the list of its callback invocations
  in order. The first \<open>then\<close> returns what \<open>callback\<close> returned, \<open>undefined\<close>, when there is
  no user, so the second \<open>then\<close> finds \<open>isValid\<close> falsy and invokes the callback again.
\<close>

definition strategy :: "env \<Rightarrow> db \<Rightarrow> string \<Rightarrow> string \<Rightarrow> callback list" where
  "strategy e st uname pw =
     (let user = User_findOne st uname;
          (calls, isValid) =
            (case user of
               None \<Rightarrow> ([Callback None (Some ''Incorrect username'')], False)
             | Some u \<Rightarrow> ([], validatePassword e u pw))
      in if \<not> isValid then calls @ [Callback None (Some ''Incorrect password'')]
         else calls @ [Callback user None])"

text \<open>
  The result of the gate is what the strategy reports first: the response is decided
  and sent on the first invocation of the callback.
\<close>

definition authenticate :: "env \<Rightarrow> db \<Rightarrow> string \<Rightarrow> string \<Rightarrow> callback option" where
  "authenticate e st uname pw =
     (case strategy e st uname pw of [] \<Rightarrow> None | cb # cbs \<Rightarrow> Some cb)"

datatype gate = Unauthorized | Authorized user | NoDecision

text \<open>
  Modelled from the spec: \<open>passport.authenticate('basic', {session: false})\<close> with the
  \<open>BasicStrategy\<close> of passport-http, dependencies that are not under \<open>src/\<close> (sections 4.3
  and 7: a failed authentication is a 401, whichever check failed). \<open>credentials\<close> is
  \<open>None\<close> for a request without usable Basic credentials, which is rejected before the
  strategy runs. The library's \<open>verified(err, user)\<close> reads the user only and drops \<open>info\<close>.
\<close>

fun verified :: "callback \<Rightarrow> gate" where
  "verified (Callback None info) = Unauthorized"
| "verified (Callback (Some u) info) = Authorized u"

definition passport_authenticate :: "env \<Rightarrow> db \<Rightarrow> (string \<times> string) option \<Rightarrow> gate" where
  "passport_authenticate e st creds =
     (case creds of
        None \<Rightarrow> Unauthorized
      | Some (userid, pw) \<Rightarrow>
          (case authenticate e st userid pw of None \<Rightarrow> NoDecision | Some cb \<Rightarrow> verified cb))"


section \<open>The request handlers (\<open>server.js\<close>, lines 43 to 181)\<close>

datatype route =
    POST_users
  | GET_posts
  | GET_posts_id string
  | POST_posts
  | DELETE_posts_id string
  | PUT_posts_id string
  | Unmatched

record request =
  route :: route
  credentials :: "(string \<times> string) option"
  req_body :: jsobject

text \<open>\<open>app.post('/users', ...)\<close>. \<open>trim\<close> of a value that is no string raises a TypeError.\<close>

definition post_users :: "env \<Rightarrow> db \<Rightarrow> jsobject \<Rightarrow> event list \<times> db" where
  "post_users e st b =
     (let requiredFields = [''username'', ''password'', ''firstName'', ''lastName''];
          missingIndex = findIndex (\<lambda>field. \<not> truthy (b field)) requiredFields
      in if missingIndex \<noteq> - 1 then
           (case res_json 400
                   (JsonMessage (''Missing field: '' @ requiredFields ! nat missingIndex)) [] of
              Inl tr \<Rightarrow> (express_error tr, st)
            | Inr tr \<Rightarrow> (tr, st))
         else
           (case (b ''username'', b ''password'') of
              (Some (JStr uname0), Some (JStr pw0)) \<Rightarrow>
                (let uname = trim uname0;
                     pw = trim pw0;
                     tr0 = [Call (User_count_call uname)];
                     count = User_count st uname
                 in case (if count > 0
                          then (case res_json 422 (JsonMessage ''username already taken'') tr0 of
                                  Inl tr \<Rightarrow> Inl tr
                                | Inr tr \<Rightarrow> Inr (tr, ResObject))
                          else Inr (tr0, Hash (hashPassword e pw))) of
                      Inl tr \<Rightarrow> (catch_json 500 (JsonMessage ''Internal server error'') tr, st)
                    | Inr (tr1, h) \<Rightarrow>
                        (let tr2 = tr1 @ [Call (User_create_call uname)]
                         in case User_create e st uname h (b ''firstName'') (b ''lastName'') of
                              Inr (u, st') \<Rightarrow>
                                (then_json 201 (JsonUser (User_apiRepr u))
                                   (JsonMessage ''Internal server error'') tr2, st')
                            | Inl err \<Rightarrow>
                                (catch_json 500 (JsonMessage ''Internal server error'') tr2, st)))
            | _ \<Rightarrow> (express_error [], st)))"

text \<open>\<open>app.get('/posts', ...)\<close>.\<close>

definition get_posts :: "db \<Rightarrow> event list \<times> db" where
  "get_posts st =
     (then_json 200 (JsonPosts (map apiRepr (BlogPost_find st)))
        (JsonError ''something went terribly wrong'') [Call BlogPost_find_call], st)"

text \<open>\<open>app.get('/posts/:id', ...)\<close>. \<open>post.apiRepr()\<close> on \<open>null\<close> raises inside the chain.\<close>

definition get_posts_id :: "env \<Rightarrow> db \<Rightarrow> string \<Rightarrow> event list \<times> db" where
  "get_posts_id e st i =
     (let tr = [Call (BlogPost_findById_call i)]
      in case BlogPost_findById e st i of
           Inr (Some post) \<Rightarrow>
             (then_json 200 (JsonPost (apiRepr post))
                (JsonError ''something went horribly awry'') tr, st)
         | _ \<Rightarrow> (catch_json 500 (JsonError ''something went horribly awry'') tr, st))"

text \<open>
  \<open>app.post('/posts', ...)\<close> behind the gate. The \<open>forEach\<close> answers 400 for each field
  that is not in the body and does not return; a second answer raises out of the handler.
\<close>

definition missing_in_body :: "string \<Rightarrow> payload" where
  "missing_in_body field =
     JsonError (''Missing '' @ [CHR 0x22] @ field @ [CHR 0x22] @ '' in request body'')"

fun requiredFields_forEach :: "jsobject \<Rightarrow> string list \<Rightarrow> event list \<Rightarrow> event list + event list" where
  "requiredFields_forEach b [] tr = Inr tr"
| "requiredFields_forEach b (field # rest) tr =
     (if b field = None then
        (case res_json 400 (missing_in_body field) tr of
           Inl tr' \<Rightarrow> Inl tr'
         | Inr tr' \<Rightarrow> requiredFields_forEach b rest tr')
      else requiredFields_forEach b rest tr)"

definition post_posts :: "env \<Rightarrow> db \<Rightarrow> user \<Rightarrow> jsobject \<Rightarrow> event list \<times> db" where
  "post_posts e st u b =
     (case requiredFields_forEach b [''title'', ''content''] [] of
        Inl tr \<Rightarrow> (express_error tr, st)
      | Inr tr \<Rightarrow>
          (let tr1 = tr @ [Call (BlogPost_create_call (b ''title'') (b ''content'')
                                   (firstName u) (lastName u))]
           in case BlogPost_create e st (b ''title'') (b ''content'') (firstName u) (lastName u) of
                Inr (blogPost, st') \<Rightarrow>
                  (then_json 201 (JsonPost (apiRepr blogPost))
                     (JsonError ''Something went wrong'') tr1, st')
              | Inl err \<Rightarrow> (catch_json 500 (JsonError ''Something went wrong'') tr1, st)))"

text \<open>
  \<open>app.delete('/posts/:id', ...)\<close> behind the gate. The handler passes \<open>{message:
  'success'}\<close> to a 204, which goes out with no body.
\<close>

definition delete_posts_id :: "env \<Rightarrow> db \<Rightarrow> string \<Rightarrow> event list \<times> db" where
  "delete_posts_id e st i =
     (let tr = [Call (BlogPost_findByIdAndRemove_call i)]
      in case BlogPost_findByIdAndRemove e st i of
           Inr (removed, st') \<Rightarrow>
             (then_json 204 (JsonMessage ''success'')
                (JsonError ''something went terribly wrong'') tr, st')
         | Inl err \<Rightarrow> (catch_json 500 (JsonError ''something went terribly wrong'') tr, st))"

text \<open>
  \<open>app.put('/posts/:id', ...)\<close> behind the gate. The id check answers 400 and does not
  return. \<open>updated\<close> holds \<open>title\<close> and \<open>content\<close> when they are in the body.
\<close>

definition put_posts_id :: "env \<Rightarrow> db \<Rightarrow> string \<Rightarrow> jsobject \<Rightarrow> event list \<times> db" where
  "put_posts_id e st i b =
     (case (if \<not> (i \<noteq> [] \<and> truthy (b ''id'') \<and> b ''id'' = Some (JStr i))
            then res_json 400
                   (JsonError ''Request path id and request body id values must match'') []
            else Inr []) of
        Inl tr \<Rightarrow> (express_error tr, st)
      | Inr tr \<Rightarrow>
          (let tr1 = tr @ [Call (BlogPost_findByIdAndUpdate_call i (b ''title'') (b ''content''))]
           in case BlogPost_findByIdAndUpdate e st i (b ''title'') (b ''content'') of
                Inr (Some updatedPost, st') \<Rightarrow>
                  (then_json 201 (JsonPost (apiRepr updatedPost))
                     (JsonMessage ''Something went wrong'') tr1, st')
              | Inr (None, st') \<Rightarrow>
                  (catch_json 500 (JsonMessage ''Something went wrong'') tr1, st')
              | Inl err \<Rightarrow> (catch_json 500 (JsonMessage ''Something went wrong'') tr1, st)))"

text \<open>
  A route behind \<open>passport.authenticate\<close>: a failed authentication is answered with 401
  and the handler does not run; otherwise the handler runs with \<open>req.user\<close>.
\<close>

definition protected :: "env \<Rightarrow> db \<Rightarrow> request \<Rightarrow> (user \<Rightarrow> event list \<times> db) \<Rightarrow> event list \<times> db" where
  "protected e st req handler =
     (case passport_authenticate e st (credentials req) of
        Unauthorized \<Rightarrow> ([Sent \<lparr>status = 401, payload = Text ''Unauthorized''\<rparr>], st)
      | Authorized u \<Rightarrow> handler u
      | NoDecision \<Rightarrow> ([], st))"

definition app :: "env \<Rightarrow> db \<Rightarrow> request \<Rightarrow> event list \<times> db" where
  "app e st req =
     (case route req of
        POST_users \<Rightarrow> post_users e st (req_body req)
      | GET_posts \<Rightarrow> get_posts st
      | GET_posts_id i \<Rightarrow> get_posts_id e st i
      | POST_posts \<Rightarrow> protected e st req (\<lambda>u. post_posts e st u (req_body req))
      | DELETE_posts_id i \<Rightarrow> protected e st req (\<lambda>u. delete_posts_id e st i)
      | PUT_posts_id i \<Rightarrow> protected e st req (\<lambda>u. put_posts_id e st i (req_body req))
      | Unmatched \<Rightarrow> ([Sent \<lparr>status = 404, payload = JsonMessage ''Not Found''\<rparr>], st))"

fun is_protected :: "route \<Rightarrow> bool" where
  "is_protected POST_posts = True"
| "is_protected (DELETE_posts_id i) = True"
| "is_protected (PUT_posts_id i) = True"
| "is_protected r = False"


section \<open>A seeded store and concrete requests\<close>

text \<open>
  The store the integration tests seed: the user \<open>testboy\<close> (plain password
  \<open>AliensExist\<close>, names \<open>Kyle\<close> and \<open>S\<close>) and a post of his. The digest of a password is
  written here as \<open>#\<close> followed by the password.
\<close>

definition testboy :: user where
  "testboy = \<lparr>uid = ''u1'', username = ''testboy'', password = ''#AliensExist'',
              firstName = ''Kyle'', lastName = ''S''\<rparr>"

definition seed_post :: blogPost where
  "seed_post = \<lparr>pid = ''p1'', author_firstName = ''Kyle'', author_lastName = ''S'',
                title = Some ''T1'', content = Some ''C1'', created = 1\<rparr>"

definition seed_db :: db where
  "seed_db = \<lparr>users = [testboy], posts = [seed_post]\<rparr>"

definition test_env :: env where
  "test_env = \<lparr>bcrypt_compare = (\<lambda>pw d. d = CHR ''#'' # pw),
               bcrypt_hash = (\<lambda>pw. CHR ''#'' # pw),
               castOther = (\<lambda>j. None), validObjectId = (\<lambda>i. i \<noteq> []),
               newObjectId = ''p2'', date_now = 2\<rparr>"

text \<open>\<open>POST /posts\<close> with the right credentials, \<open>POST /users\<close>, and two wrong logins.\<close>

definition post_request :: "jsobject \<Rightarrow> request" where
  "post_request b =
     \<lparr>route = POST_posts, credentials = Some (''testboy'', ''AliensExist''), req_body = b\<rparr>"

definition users_request :: "jsobject \<Rightarrow> request" where
  "users_request b = \<lparr>route = POST_users, credentials = None, req_body = b\<rparr>"

definition wrong_password_request :: request where
  "wrong_password_request =
     \<lparr>route = DELETE_posts_id ''p1'', credentials = Some (''testboy'', ''AliensExista''),
      req_body = Map.empty\<rparr>"

definition unknown_user_request :: request where
  "unknown_user_request =
     \<lparr>route = POST_posts, credentials = Some (''nobody'', ''AliensExist''),
      req_body = [''title'' \<mapsto> JStr ''T'', ''content'' \<mapsto> JStr ''C'']\<rparr>"

definition put_request :: "string \<Rightarrow> jsobject \<Rightarrow> request" where
  "put_request i b =
     \<lparr>route = PUT_posts_id i, credentials = Some (''testboy'', ''AliensExist''), req_body = b\<rparr>"

definition new_post_body :: jsobject where
  "new_post_body =
     [''title'' \<mapsto> JStr ''T'', ''content'' \<mapsto> JStr ''C'', ''author'' \<mapsto> JStr ''Mallory'']"

definition no_password_body :: jsobject where
  "no_password_body =
     [''username'' \<mapsto> JStr ''testboy'', ''firstName'' \<mapsto> JStr ''Kyle'', ''lastName'' \<mapsto> JStr ''S'']"

definition taken_body :: jsobject where
  "taken_body =
     [''username'' \<mapsto> JStr '' testboy '', ''password'' \<mapsto> JStr ''secret'',
      ''firstName'' \<mapsto> JStr ''Kyle'', ''lastName'' \<mapsto> JStr ''S'']"

definition zero_username_body :: jsobject where
  "zero_username_body =
     [''username'' \<mapsto> JNum 0, ''password'' \<mapsto> JStr [],
      ''firstName'' \<mapsto> JStr ''Kyle'', ''lastName'' \<mapsto> JStr ''S'']"

lemmas test_defs = testboy_def seed_post_def seed_db_def test_env_def


section \<open>Facts about the store and the gate\<close>

lemma find_pid: "find (\<lambda>q. pid q = i) ps = Some p \<Longrightarrow> pid p = i"
  by (induction ps) (auto split: if_splits)

lemma find_pid_None: "i \<notin> set (map pid ps) \<Longrightarrow> find (\<lambda>p. pid p = i) ps = None"
  by (induction ps) auto

lemma find_pid_fresh:
  "i \<notin> set (map pid ps) \<Longrightarrow> pid p = i \<Longrightarrow> find (\<lambda>q. pid q = i) (ps @ [p]) = Some p"
  by (induction ps) auto

lemma find_update_first:
  "find (\<lambda>q. pid q = i) ps = Some p \<Longrightarrow> pid p' = i \<Longrightarrow>
   find (\<lambda>q. pid q = i) (update_first (\<lambda>q. pid q = i) (\<lambda>q. p') ps) = Some p'"
  by (induction ps) (auto split: if_splits)

lemma map_pid_update_first:
  "pid p' = i \<Longrightarrow> map pid (update_first (\<lambda>q. pid q = i) (\<lambda>q. p') ps) = map pid ps"
  by (induction ps) auto

lemma filter_update_first:
  "pid p' = i \<Longrightarrow>
   filter (\<lambda>q. pid q \<noteq> i) (update_first (\<lambda>q. pid q = i) (\<lambda>q. p') ps)
     = filter (\<lambda>q. pid q \<noteq> i) ps"
  by (induction ps) auto

lemma findIndex_find:
  "find P xs = Some f \<Longrightarrow>
   findIndex P xs \<noteq> - 1 \<and> 0 \<le> findIndex P xs \<and> xs ! nat (findIndex P xs) = f"
proof (induction xs arbitrary: f)
  case Nil
  then show ?case by simp
next
  case (Cons x xs)
  show ?case
  proof (cases "P x")
    case True
    then show ?thesis using Cons.prems by simp
  next
    case False
    then have "find P xs = Some f" using Cons.prems by simp
    from Cons.IH [OF this] False show ?thesis
      by (simp add: Let_def nat_add_distrib)
  qed
qed

lemma findIndex_all_truthy:
  "truthy (b ''username'') \<Longrightarrow> truthy (b ''password'') \<Longrightarrow> truthy (b ''firstName'') \<Longrightarrow>
   truthy (b ''lastName'') \<Longrightarrow>
   findIndex (\<lambda>field. \<not> truthy (b field))
     [''username'', ''password'', ''firstName'', ''lastName''] = - 1"
  by simp

text \<open>
  With an unknown username the strategy invokes its callback twice, first with
  \<open>Incorrect username\<close> and then with \<open>Incorrect password\<close>; the gate has answered on the
  first.
\<close>

lemma strategy_unknown_username:
  "User_findOne st uname = None \<Longrightarrow>
   strategy e st uname pw =
     [Callback None (Some ''Incorrect username''), Callback None (Some ''Incorrect password'')]"
  by (simp add: strategy_def)

lemma strategy_wrong_password:
  "User_findOne st uname = Some u \<Longrightarrow> \<not> bcrypt_compare e pw (password u) \<Longrightarrow>
   strategy e st uname pw = [Callback None (Some ''Incorrect password'')]"
  by (simp add: strategy_def validatePassword_def)

lemma strategy_success:
  "User_findOne st uname = Some u \<Longrightarrow> bcrypt_compare e pw (password u) \<Longrightarrow>
   strategy e st uname pw = [Callback (Some u) None]"
  by (simp add: strategy_def validatePassword_def)

lemma passport_fail_cases:
  "User_findOne st n = None \<Longrightarrow> passport_authenticate e st (Some (n, p)) = Unauthorized"
  "User_findOne st n = Some u \<Longrightarrow> \<not> bcrypt_compare e p (password u) \<Longrightarrow>
     passport_authenticate e st (Some (n, p)) = Unauthorized"
  by (simp_all add: passport_authenticate_def authenticate_def strategy_unknown_username
      strategy_wrong_password)

lemma passport_unauthorized:
  assumes "creds = None \<or> (\<exists>userid pw. creds = Some (userid, pw) \<and>
             (User_findOne st userid = None \<or>
              (\<exists>u. User_findOne st userid = Some u \<and> \<not> bcrypt_compare e pw (password u))))"
  shows "passport_authenticate e st creds = Unauthorized"
  using assms by (auto simp: passport_fail_cases) (simp add: passport_authenticate_def)

lemma protected_unauthorized:
  "is_protected (route req) \<Longrightarrow> passport_authenticate e st (credentials req) = Unauthorized \<Longrightarrow>
   app e st req = ([Sent \<lparr>status = 401, payload = Text ''Unauthorized''\<rparr>], st)"
  by (cases "route req") (simp_all add: app_def protected_def)

lemma testboy_authorized:
  "passport_authenticate test_env seed_db (Some (''testboy'', ''AliensExist'')) = Authorized testboy"
  by (simp add: passport_authenticate_def authenticate_def strategy_def validatePassword_def
      User_findOne_def test_defs)

lemma app_POST_posts:
  "route req = POST_posts \<Longrightarrow> passport_authenticate e st (credentials req) = Authorized u \<Longrightarrow>
   app e st req = post_posts e st u (req_body req)"
  by (simp add: app_def protected_def)


section \<open>The gate\<close>

text \<open>
  Claim C1. A request to \<open>POST /posts\<close>, \<open>PUT /posts/:id\<close> or \<open>DELETE /posts/:id\<close> whose
  Basic credentials are missing, name an unknown user or carry a password that does not
  verify against the stored digest is answered with 401, and nothing else happens: no
  store operation is called and the store is the one before the request.
\<close>

theorem unauthenticated_write_is_401_without_mutation:
  assumes "is_protected (route req)"
    and "credentials req = None \<or> (\<exists>userid pw. credentials req = Some (userid, pw) \<and>
           (User_findOne st userid = None \<or>
            (\<exists>u. User_findOne st userid = Some u \<and> \<not> bcrypt_compare e pw (password u))))"
  shows "app e st req = ([Sent \<lparr>status = 401, payload = Text ''Unauthorized''\<rparr>], st)"
proof -
  have "passport_authenticate e st (credentials req) = Unauthorized"
    using assms(2) by (rule passport_unauthorized)
  with assms(1) show ?thesis by (rule protected_unauthorized)
qed

text \<open>The test "delete auth is wrong": \<open>testboy\<close> with a wrong password on the seeded store.\<close>

theorem unauthenticated_write_is_401_without_mutation_witness:
  "is_protected (route wrong_password_request)
   \<and> credentials wrong_password_request = Some (''testboy'', ''AliensExista'')
   \<and> User_findOne seed_db ''testboy'' = Some testboy
   \<and> \<not> bcrypt_compare test_env ''AliensExista'' (password testboy)
   \<and> app test_env seed_db wrong_password_request
       = ([Sent \<lparr>status = 401, payload = Text ''Unauthorized''\<rparr>], seed_db)"
  using unauthenticated_write_is_401_without_mutation [of wrong_password_request seed_db test_env]
  by (simp add: wrong_password_request_def User_findOne_def test_defs)

text \<open>
  What the strategy reports first, the invocation the gate answers on: \<open>Incorrect
  username\<close>, else \<open>Incorrect password\<close>, else the stored user.
\<close>

lemma authenticate_first_callback:
  "authenticate e st uname pw =
     Some (case User_findOne st uname of
             None \<Rightarrow> Callback None (Some ''Incorrect username'')
           | Some u \<Rightarrow>
               if \<not> bcrypt_compare e pw (password u)
               then Callback None (Some ''Incorrect password'')
               else Callback (Some u) None)"
  by (simp add: authenticate_def strategy_def validatePassword_def split: option.splits)

text \<open>
  Claim C2. The gate is to fail with the reason \<open>Incorrect username\<close> when no user has the
  username, to fail with \<open>Incorrect password\<close> only when a user exists and the verify
  operation on the supplied password and the stored digest is false, and to succeed with
  the stored user otherwise. The strategy does not do this at a username that no user
  has: on the seeded store, for \<open>nobody\<close>, it reports \<open>Incorrect username\<close> and then, the
  chain running on after \<open>return callback(...)\<close>, reports \<open>Incorrect password\<close> as well.
\<close>

theorem strategy_unknown_username_also_reports_incorrect_password:
  "User_findOne seed_db ''nobody'' = None
   \<and> strategy test_env seed_db ''nobody'' ''AliensExist''
       = [Callback None (Some ''Incorrect username''),
          Callback None (Some ''Incorrect password'')]"
  by (simp add: strategy_def User_findOne_def test_defs)

text \<open>
  Claim C3. Of two requests to protected routes, one failing because the username is
  unknown and one because the password does not match the digest of an existing user,
  the gate records different reasons, and both get the same answer: 401 with the body
  \<open>Unauthorized\<close>, in which no reason appears.
\<close>

theorem authentication_failures_indistinguishable:
  assumes "is_protected (route r1)" and "is_protected (route r2)"
    and "credentials r1 = Some (n1, p1)" and "User_findOne st n1 = None"
    and "credentials r2 = Some (n2, p2)" and "User_findOne st n2 = Some u"
    and "\<not> bcrypt_compare e p2 (password u)"
  shows "authenticate e st n1 p1 = Some (Callback None (Some ''Incorrect username''))
       \<and> authenticate e st n2 p2 = Some (Callback None (Some ''Incorrect password''))
       \<and> fst (app e st r1) = [Sent \<lparr>status = 401, payload = Text ''Unauthorized''\<rparr>]
       \<and> fst (app e st r2) = fst (app e st r1)"
proof -
  have "app e st r1 = ([Sent \<lparr>status = 401, payload = Text ''Unauthorized''\<rparr>], st)"
    using assms(1,3,4) by (simp add: protected_unauthorized passport_fail_cases)
  moreover have "app e st r2 = ([Sent \<lparr>status = 401, payload = Text ''Unauthorized''\<rparr>], st)"
    using assms(2,5,6,7) by (simp add: protected_unauthorized passport_fail_cases)
  moreover have "authenticate e st n1 p1 = Some (Callback None (Some ''Incorrect username''))"
    using assms(4) by (simp add: authenticate_def strategy_unknown_username)
  moreover have "authenticate e st n2 p2 = Some (Callback None (Some ''Incorrect password''))"
    using assms(6,7) by (simp add: authenticate_def strategy_wrong_password)
  ultimately show ?thesis by simp
qed

text \<open>An unknown user on \<open>POST /posts\<close> against a wrong password on \<open>DELETE /posts/p1\<close>.\<close>

theorem authentication_failures_indistinguishable_witness:
  "is_protected (route unknown_user_request) \<and> is_protected (route wrong_password_request)
   \<and> User_findOne seed_db ''nobody'' = None
   \<and> User_findOne seed_db ''testboy'' = Some testboy
   \<and> \<not> bcrypt_compare test_env ''AliensExista'' (password testboy)
   \<and> fst (app test_env seed_db wrong_password_request)
       = fst (app test_env seed_db unknown_user_request)"
  using authentication_failures_indistinguishable
          [of unknown_user_request wrong_password_request "''nobody''" "''AliensExist''" seed_db
              "''testboy''" "''AliensExista''" testboy test_env]
  by (simp add: unknown_user_request_def wrong_password_request_def User_findOne_def test_defs)



section \<open>Registration: \<open>POST /users\<close>\<close>

lemma User_create_duplicate:
  "User_count st uname > 0 \<Longrightarrow> \<exists>err. User_create e st uname h fn ln = Inl err"
  by (cases h) (auto simp: User_create_def)

lemma post_users_existing_username:
  assumes "b ''username'' = Some (JStr uname0)" and "User_count st (trim uname0) > 0"
  shows "snd (post_users e st b) = st
       \<and> (\<forall>r. http_response (fst (post_users e st b)) = Some r \<longrightarrow> status r \<noteq> 201)"
proof (cases "findIndex (\<lambda>field. \<not> truthy (b field))
                [''username'', ''password'', ''firstName'', ''lastName''] = - 1")
  case False
  then show ?thesis
    by (simp add: post_users_def Let_def catch_json_def res_json_def del: findIndex.simps)
next
  case True
  show ?thesis
  proof (cases "\<exists>pw0. b ''password'' = Some (JStr pw0)")
    case False
    then show ?thesis using True assms(1)
      by (auto simp: post_users_def Let_def express_error_def simp del: findIndex.simps
          split: option.splits json.splits)
  next
    case pw: True
    then obtain pw0 where pw0: "b ''password'' = Some (JStr pw0)" by blast
    obtain err where
      "User_create e st (trim uname0) ResObject (b ''firstName'') (b ''lastName'') = Inl err"
      using User_create_duplicate [OF assms(2)] by blast
    then show ?thesis using True assms pw0
      by (simp add: post_users_def Let_def catch_json_def res_json_def del: findIndex.simps)
  qed
qed

text \<open>
  Claim C6, amended. For every \<open>POST /users\<close> request whose username is a string that,
  trimmed, already exists in the credential store: the store is left as it was and the
  response is never 201; and when the request passes the required-field check with a
  string password (all four fields truthy), the response is 422 with the message
  \<open>username already taken\<close>.
\<close>

theorem duplicate_username_is_422:
  assumes "route req = POST_users"
    and "req_body req ''username'' = Some (JStr uname0)"
    and "User_count st (trim uname0) > 0"
  shows "snd (app e st req) = st
       \<and> (\<forall>r. http_response (fst (app e st req)) = Some r \<longrightarrow> status r \<noteq> 201)
       \<and> (uname0 \<noteq> [] \<and> (\<exists>pw0. pw0 \<noteq> [] \<and> req_body req ''password'' = Some (JStr pw0))
            \<and> truthy (req_body req ''firstName'') \<and> truthy (req_body req ''lastName'')
          \<longrightarrow> http_response (fst (app e st req))
                = Some \<lparr>status = 422, payload = JsonMessage ''username already taken''\<rparr>)"
proof -
  have app: "app e st req = post_users e st (req_body req)"
    using assms(1) by (simp add: app_def)
  have "http_response (fst (post_users e st (req_body req)))
          = Some \<lparr>status = 422, payload = JsonMessage ''username already taken''\<rparr>"
    if "uname0 \<noteq> []" and pw: "pw0 \<noteq> []" "req_body req ''password'' = Some (JStr pw0)"
      and "truthy (req_body req ''firstName'')" and "truthy (req_body req ''lastName'')" for pw0
  proof -
    have idx: "findIndex (\<lambda>field. \<not> truthy (req_body req field))
                 [''username'', ''password'', ''firstName'', ''lastName''] = - 1"
      using that assms(2) by (intro findIndex_all_truthy) simp_all
    obtain err where "User_create e st (trim uname0) ResObject
                        (req_body req ''firstName'') (req_body req ''lastName'') = Inl err"
      using User_create_duplicate [OF assms(3)] by blast
    then show ?thesis using idx assms(2,3) pw(2)
      by (simp add: post_users_def Let_def catch_json_def res_json_def del: findIndex.simps)
  qed
  then show ?thesis
    using post_users_existing_username [of "req_body req" uname0 st e] assms(2,3) app by auto
qed

text \<open>
  Registering \<open>testboy\<close> again, with blanks around the name: the count, the 422, and a
  \<open>User.create\<close> that is still called and fails.
\<close>

theorem duplicate_username_is_422_witness:
  "route (users_request taken_body) = POST_users
   \<and> req_body (users_request taken_body) ''username'' = Some (JStr '' testboy '')
   \<and> User_count seed_db (trim '' testboy '') > 0
   \<and> app test_env seed_db (users_request taken_body)
       = ([Call (User_count_call ''testboy''),
           Sent \<lparr>status = 422, payload = JsonMessage ''username already taken''\<rparr>,
           Call (User_create_call ''testboy'')], seed_db)"
  using duplicate_username_is_422 [of "users_request taken_body" "'' testboy ''" seed_db test_env]
  by (simp add: users_request_def taken_body_def app_def post_users_def Let_def catch_json_def
      res_json_def User_count_def User_create_def test_defs trim_def is_space_def)

text \<open>
  The claim as written fails where the body has the existing username and no password:
  the required-field check answers 400 before the username is looked up.
\<close>

theorem duplicate_username_without_password_is_400:
  "route (users_request no_password_body) = POST_users
   \<and> req_body (users_request no_password_body) ''username'' = Some (JStr ''testboy'')
   \<and> User_count seed_db (trim ''testboy'') > 0
   \<and> http_response (fst (app test_env seed_db (users_request no_password_body)))
       = Some \<lparr>status = 400, payload = JsonMessage ''Missing field: password''\<rparr>"
  by (simp add: users_request_def no_password_body_def app_def post_users_def Let_def
      catch_json_def res_json_def User_count_def test_defs trim_def is_space_def)

text \<open>
  Claim C7, amended. For every \<open>POST /users\<close> request in which one of \<open>username\<close>,
  \<open>password\<close>, \<open>firstName\<close>, \<open>lastName\<close> is falsy in the body (missing, \<open>null\<close>, \<open>false\<close>,
  \<open>0\<close> or the empty string), the response is 400, its message names the first falsy
  field in that order, no store operation is called and no user is created.
\<close>

theorem falsy_user_field_is_400:
  assumes "route req = POST_users"
    and "\<exists>g \<in> set [''username'', ''password'', ''firstName'', ''lastName''].
           \<not> truthy (req_body req g)"
  shows "\<exists>f. find (\<lambda>field. \<not> truthy (req_body req field))
              [''username'', ''password'', ''firstName'', ''lastName''] = Some f
           \<and> app e st req
               = ([Sent \<lparr>status = 400, payload = JsonMessage (''Missing field: '' @ f)\<rparr>], st)"
proof -
  have "find (\<lambda>field. \<not> truthy (req_body req field))
          [''username'', ''password'', ''firstName'', ''lastName''] \<noteq> None"
    using assms(2) by (auto simp: find_None_iff simp del: find.simps)
  then obtain f where
    f: "find (\<lambda>field. \<not> truthy (req_body req field))
          [''username'', ''password'', ''firstName'', ''lastName''] = Some f"
    by blast
  have "app e st req
          = ([Sent \<lparr>status = 400, payload = JsonMessage (''Missing field: '' @ f)\<rparr>], st)"
    using assms(1) findIndex_find [OF f]
    by (simp add: app_def post_users_def Let_def catch_json_def res_json_def
        del: findIndex.simps find.simps)
  with f show ?thesis by blast
qed

text \<open>A body without a password: the message names \<open>password\<close>.\<close>

theorem falsy_user_field_is_400_witness:
  "route (users_request no_password_body) = POST_users
   \<and> \<not> truthy (req_body (users_request no_password_body) ''password'')
   \<and> app test_env seed_db (users_request no_password_body)
       = ([Sent \<lparr>status = 400, payload = JsonMessage ''Missing field: password''\<rparr>], seed_db)"
  using falsy_user_field_is_400 [of "users_request no_password_body" test_env seed_db]
  by (simp add: users_request_def no_password_body_def)

text \<open>
  The claim as written fails where \<open>username\<close> is the number \<open>0\<close> and \<open>password\<close> is the
  empty string: \<open>password\<close> is the first field that is missing or empty, and the message
  names \<open>username\<close>.
\<close>

theorem zero_username_is_named_before_empty_password:
  "req_body (users_request zero_username_body) ''username'' = Some (JNum 0)
   \<and> req_body (users_request zero_username_body) ''password'' = Some (JStr [])
   \<and> http_response (fst (app test_env seed_db (users_request zero_username_body)))
       = Some \<lparr>status = 400, payload = JsonMessage ''Missing field: username''\<rparr>"
  by (simp add: users_request_def zero_username_body_def app_def post_users_def Let_def
      catch_json_def res_json_def)



section \<open>Reading a post: \<open>GET /posts/:id\<close>\<close>

text \<open>
  Claim C9. For every \<open>GET /posts/:id\<close> request whose id has no post in the store, the
  response is 500: the lookup yields no post, serialising it raises, and the handler's
  \<open>catch\<close> answers with the generic error. The store is unchanged.
\<close>

theorem get_absent_post_is_500:
  assumes "route req = GET_posts_id i" and "i \<notin> set (map pid (posts st))"
  shows "app e st req =
           ([Call (BlogPost_findById_call i),
             Sent \<lparr>status = 500, payload = JsonError ''something went horribly awry''\<rparr>], st)"
  using assms(1) find_pid_None [OF assms(2)]
  by (simp add: app_def get_posts_id_def BlogPost_findById_def catch_json_def res_json_def)

text \<open>The seeded store has the post \<open>p1\<close> only; \<open>p9\<close> is asked for.\<close>

theorem get_absent_post_is_500_witness:
  "''p9'' \<notin> set (map pid (posts seed_db))
   \<and> app test_env seed_db \<lparr>route = GET_posts_id ''p9'', credentials = None, req_body = Map.empty\<rparr>
       = ([Call (BlogPost_findById_call ''p9''),
           Sent \<lparr>status = 500, payload = JsonError ''something went horribly awry''\<rparr>], seed_db)"
  using get_absent_post_is_500
          [of "\<lparr>route = GET_posts_id ''p9'', credentials = None, req_body = Map.empty\<rparr>"
              "''p9''" seed_db test_env]
  by (simp add: seed_db_def seed_post_def)


section \<open>Creating a post: \<open>POST /posts\<close>\<close>

lemma requiredFields_forEach_other_key:
  "k \<notin> set fs \<Longrightarrow> requiredFields_forEach (b(k := x)) fs tr = requiredFields_forEach b fs tr"
  by (induction fs arbitrary: tr) (auto split: sum.splits)

lemma post_posts_ignores_author: "post_posts e st u (b(''author'' := x)) = post_posts e st u b"
  by (simp add: post_posts_def requiredFields_forEach_other_key del: requiredFields_forEach.simps
      split: sum.splits)

lemma post_posts_valid:
  assumes "b ''title'' = Some (JStr t)" and "t \<noteq> []" and "b ''content'' = Some (JStr c)"
    and "newObjectId e \<notin> set (map pid (posts st))"
  shows "post_posts e st u b =
     ([Call (BlogPost_create_call (Some (JStr t)) (Some (JStr c)) (firstName u) (lastName u)),
       Sent \<lparr>status = 201, payload = JsonPost (PostRepr (newObjectId e)
               (trim (firstName u @ '' '' @ lastName u)) (Some c) (Some t) (date_now e))\<rparr>],
      st\<lparr>posts := posts st @ [\<lparr>pid = newObjectId e, author_firstName = firstName u,
              author_lastName = lastName u, title = Some t, content = Some c,
              created = date_now e\<rparr>]\<rparr>)"
  using assms
  by (simp add: post_posts_def BlogPost_create_def then_json_def res_json_def apiRepr_def
      authorName_def Let_def)

text \<open>
  Claim C4, amended. For every authenticated \<open>POST /posts\<close> request whose body holds
  \<open>title\<close> as a non-empty string and \<open>content\<close> as a string, the store assigning the new
  post an id that no stored post has: the post is stored with the author names of the
  authenticated user, whatever \<open>author\<close> the body carries; the response is 201 and its
  author is "firstName lastName" of that user with surrounding white space trimmed; and
  the new post is in the list of a following \<open>GET /posts\<close> and is the answer of a
  following \<open>GET /posts/:id\<close> for its id, with the title and content of the request.
\<close>

theorem create_post_valid_request:
  fixes e :: env and st :: db and u :: user and t c :: string
  defines "new \<equiv> \<lparr>pid = newObjectId e, author_firstName = firstName u,
                    author_lastName = lastName u, title = Some t, content = Some c,
                    created = date_now e\<rparr>"
    and "repr \<equiv> PostRepr (newObjectId e) (trim (firstName u @ '' '' @ lastName u))
                   (Some c) (Some t) (date_now e)"
  assumes "route req = POST_posts"
    and "passport_authenticate e st (credentials req) = Authorized u"
    and "req_body req ''title'' = Some (JStr t)" and "t \<noteq> []"
    and "req_body req ''content'' = Some (JStr c)"
    and "newObjectId e \<notin> set (map pid (posts st))"
  shows "snd (app e st req) = st\<lparr>posts := posts st @ [new]\<rparr>
       \<and> http_response (fst (app e st req)) = Some \<lparr>status = 201, payload = JsonPost repr\<rparr>
       \<and> (\<forall>x. app e st (req\<lparr>req_body := (req_body req)(''author'' := x)\<rparr>) = app e st req)
       \<and> (\<forall>e2 r2. route r2 = GET_posts \<longrightarrow>
            (\<exists>l. http_response (fst (app e2 (snd (app e st req)) r2))
                    = Some \<lparr>status = 200, payload = JsonPosts l\<rparr>
                 \<and> repr \<in> set l))
       \<and> (\<forall>e2 r2. route r2 = GET_posts_id (newObjectId e) \<and> validObjectId e2 (newObjectId e) \<longrightarrow>
            http_response (fst (app e2 (snd (app e st req)) r2))
              = Some \<lparr>status = 200, payload = JsonPost repr\<rparr>)"
proof -
  have app: "app e st req = post_posts e st u (req_body req)"
    using assms(3,4) by (rule app_POST_posts)
  have res: "app e st req =
     ([Call (BlogPost_create_call (Some (JStr t)) (Some (JStr c)) (firstName u) (lastName u)),
       Sent \<lparr>status = 201, payload = JsonPost repr\<rparr>], st\<lparr>posts := posts st @ [new]\<rparr>)"
    unfolding app new_def repr_def using assms(5-8) by (rule post_posts_valid)
  have repr: "apiRepr new = repr"
    by (simp add: apiRepr_def authorName_def new_def repr_def)
  have author: "app e st (req\<lparr>req_body := (req_body req)(''author'' := x)\<rparr>) = app e st req" for x
    using assms(3,4) by (simp add: app_def protected_def post_posts_ignores_author)
  have list: "\<exists>l. http_response (fst (app e2 (snd (app e st req)) r2))
                     = Some \<lparr>status = 200, payload = JsonPosts l\<rparr> \<and> repr \<in> set l"
    if "route r2 = GET_posts" for e2 r2
    using that repr unfolding res
    by (simp add: app_def get_posts_def then_json_def res_json_def BlogPost_find_def)
  have one: "http_response (fst (app e2 (snd (app e st req)) r2))
               = Some \<lparr>status = 200, payload = JsonPost repr\<rparr>"
    if "route r2 = GET_posts_id (newObjectId e)" and "validObjectId e2 (newObjectId e)" for e2 r2
  proof -
    have "find (\<lambda>q. pid q = newObjectId e) (posts st @ [new]) = Some new"
      using assms(8) by (rule find_pid_fresh) (simp add: new_def)
    then show ?thesis using that repr unfolding res
      by (simp add: app_def get_posts_id_def BlogPost_findById_def then_json_def res_json_def)
  qed
  show ?thesis using res author list one by simp
qed

text \<open>
  The test "should add a new blog post", with an \<open>author\<close> in the body that is ignored:
  201 with the author \<open>Kyle S\<close>, and the post is read back by its id.
\<close>

theorem create_post_valid_request_witness:
  "passport_authenticate test_env seed_db (credentials (post_request new_post_body))
     = Authorized testboy
   \<and> newObjectId test_env \<notin> set (map pid (posts seed_db))
   \<and> http_response (fst (app test_env seed_db (post_request new_post_body)))
        = Some \<lparr>status = 201,
                payload = JsonPost (PostRepr ''p2'' ''Kyle S'' (Some ''C'') (Some ''T'') 2)\<rparr>
   \<and> http_response (fst (app test_env (snd (app test_env seed_db (post_request new_post_body)))
          \<lparr>route = GET_posts_id ''p2'', credentials = None, req_body = Map.empty\<rparr>))
        = Some \<lparr>status = 200,
                payload = JsonPost (PostRepr ''p2'' ''Kyle S'' (Some ''C'') (Some ''T'') 2)\<rparr>"
proof -
  let ?req = "post_request new_post_body"
  let ?get = "\<lparr>route = GET_posts_id ''p2'', credentials = None, req_body = Map.empty\<rparr>"
  have r: "route ?req = POST_posts"
    by (simp add: post_request_def)
  have a: "passport_authenticate test_env seed_db (credentials ?req) = Authorized testboy"
    using testboy_authorized by (simp add: post_request_def)
  have t: "req_body ?req ''title'' = Some (JStr ''T'')" and n: "''T'' \<noteq> []"
    and c: "req_body ?req ''content'' = Some (JStr ''C'')"
    by (simp_all add: post_request_def new_post_body_def)
  have f: "newObjectId test_env \<notin> set (map pid (posts seed_db))"
    by (simp add: test_defs)
  have name: "trim (firstName testboy @ '' '' @ lastName testboy) = ''Kyle S''"
    by (simp add: testboy_def trim_def is_space_def)
  have env: "newObjectId test_env = ''p2''" "date_now test_env = 2" "validObjectId test_env ''p2''"
    by (simp_all add: test_env_def)
  note main = create_post_valid_request [OF r a t n c f, unfolded name env]
  from main have "http_response (fst (app test_env seed_db ?req))
        = Some \<lparr>status = 201,
                payload = JsonPost (PostRepr ''p2'' ''Kyle S'' (Some ''C'') (Some ''T'') 2)\<rparr>"
    by blast
  moreover from main have "route ?get = GET_posts_id ''p2'' \<and> validObjectId test_env ''p2'' \<longrightarrow>
      http_response (fst (app test_env (snd (app test_env seed_db ?req)) ?get))
        = Some \<lparr>status = 200,
                payload = JsonPost (PostRepr ''p2'' ''Kyle S'' (Some ''C'') (Some ''T'') 2)\<rparr>"
    by blast
  ultimately show ?thesis using a f env(3) by simp
qed

text \<open>
  The claim as written fails for an authenticated request whose body has a title and no
  content: the post is created, with the author of the authenticated user, and the
  response is the 400 of the field check, not 201.
\<close>

theorem create_post_without_content_is_400:
  "passport_authenticate test_env seed_db (credentials (post_request [''title'' \<mapsto> JStr ''T'']))
     = Authorized testboy
   \<and> http_response (fst (app test_env seed_db (post_request [''title'' \<mapsto> JStr ''T''])))
        = Some \<lparr>status = 400, payload = missing_in_body ''content''\<rparr>
   \<and> posts (snd (app test_env seed_db (post_request [''title'' \<mapsto> JStr ''T''])))
        = [seed_post, \<lparr>pid = ''p2'', author_firstName = ''Kyle'', author_lastName = ''S'',
                       title = Some ''T'', content = None, created = 2\<rparr>]"
  using testboy_authorized
  by (simp add: post_request_def app_def protected_def post_posts_def res_json_def
      BlogPost_create_def then_json_def catch_json_def test_defs Let_def)

text \<open>
  Two more requests outside the amended claim: an empty title is refused by the store
  (500, nothing stored), and the author of a post is trimmed.
\<close>

lemma create_post_empty_title_is_500:
  "app test_env seed_db (post_request [''title'' \<mapsto> JStr [], ''content'' \<mapsto> JStr ''C''])
     = ([Call (BlogPost_create_call (Some (JStr [])) (Some (JStr ''C'')) ''Kyle'' ''S''),
         Sent \<lparr>status = 500, payload = JsonError ''Something went wrong''\<rparr>], seed_db)"
  using testboy_authorized
  by (simp add: post_request_def app_def protected_def post_posts_def res_json_def
      BlogPost_create_def then_json_def catch_json_def test_defs Let_def)

lemma authorName_is_trimmed:
  "authorName \<lparr>pid = ''p3'', author_firstName = '' Kyle'', author_lastName = [],
               title = Some ''T'', content = None, created = 3\<rparr> = ''Kyle''"
  by (simp add: authorName_def trim_def is_space_def)

text \<open>
  Claim C8, amended. For every authenticated \<open>POST /posts\<close> request whose body lacks
  \<open>title\<close> or \<open>content\<close>, the response is a 400 that names the first missing field; when
  exactly one of the two is missing, the handler goes on and calls the creation of the
  post after that response.
\<close>

theorem post_without_field_is_400_then_create:
  assumes "route req = POST_posts"
    and "passport_authenticate e st (credentials req) = Authorized u"
    and "req_body req ''title'' = None \<or> req_body req ''content'' = None"
  shows "http_response (fst (app e st req)) =
           Some \<lparr>status = 400,
                 payload = missing_in_body
                   (if req_body req ''title'' = None then ''title'' else ''content'')\<rparr>
       \<and> (\<not> (req_body req ''title'' = None \<and> req_body req ''content'' = None) \<longrightarrow>
            fst (app e st req) =
              [Sent \<lparr>status = 400,
                     payload = missing_in_body
                       (if req_body req ''title'' = None then ''title'' else ''content'')\<rparr>,
               Call (BlogPost_create_call (req_body req ''title'') (req_body req ''content'')
                       (firstName u) (lastName u))])"
  using assms(3) unfolding app_POST_posts [OF assms(1,2)]
  by (auto simp: post_posts_def res_json_def express_error_def catch_json_def then_json_def Let_def
      split: sum.splits prod.splits)

text \<open>A body with content and no title: the 400 for \<open>title\<close>, then the creation is called.\<close>

theorem post_without_field_is_400_then_create_witness:
  "passport_authenticate test_env seed_db (credentials (post_request [''content'' \<mapsto> JStr ''C'']))
     = Authorized testboy
   \<and> req_body (post_request [''content'' \<mapsto> JStr ''C'']) ''title'' = None
   \<and> fst (app test_env seed_db (post_request [''content'' \<mapsto> JStr ''C'']))
       = [Sent \<lparr>status = 400, payload = missing_in_body ''title''\<rparr>,
          Call (BlogPost_create_call None (Some (JStr ''C'')) ''Kyle'' ''S'')]"
  using post_without_field_is_400_then_create
          [of "post_request [''content'' \<mapsto> JStr ''C'']" test_env seed_db testboy]
        testboy_authorized
  by (simp add: post_request_def testboy_def)

text \<open>
  The claim as written fails where both fields are missing: the second 400 raises out of
  the handler, and the creation of the post is not called.
\<close>

theorem post_without_both_fields_calls_no_create:
  "passport_authenticate test_env seed_db (credentials (post_request Map.empty))
     = Authorized testboy
   \<and> req_body (post_request Map.empty) ''title'' = None
   \<and> req_body (post_request Map.empty) ''content'' = None
   \<and> app test_env seed_db (post_request Map.empty)
       = ([Sent \<lparr>status = 400, payload = missing_in_body ''title''\<rparr>], seed_db)"
  using testboy_authorized
  by (simp add: post_request_def app_def protected_def post_posts_def res_json_def
      express_error_def)



section \<open>Updating a post: \<open>PUT /posts/:id\<close>\<close>

lemma put_posts_id_store:
  assumes "find (\<lambda>q. pid q = i) (posts st) = Some p"
  shows "snd (put_posts_id e st i b) = st \<or>
         (\<exists>t' c'. apply_set e (b ''title'') (title p) = Inr t' \<and>
                  apply_set e (b ''content'') (content p) = Inr c' \<and>
                  snd (put_posts_id e st i b) =
                    st\<lparr>posts := update_first (\<lambda>q. pid q = i)
                                   (\<lambda>q. p\<lparr>title := t', content := c'\<rparr>) (posts st)\<rparr>)"
  using assms
  by (auto simp: put_posts_id_def BlogPost_findByIdAndUpdate_def Let_def res_json_def
      split: sum.splits prod.splits option.splits if_splits)

lemma apply_set_absent: "apply_set e None old = Inr v \<Longrightarrow> v = old"
  by simp

text \<open>
  Claim C5. For every \<open>PUT /posts/:id\<close> request with matching path and body ids that
  targets an existing post, the stored post keeps its id, author and creation time, keeps
  its title when the body has no \<open>title\<close> and keeps its content when the body has no
  \<open>content\<close>; the users, the ids of the posts and every post with another id are as
  before.
\<close>

theorem put_changes_only_fields_in_body:
  assumes "route req = PUT_posts_id i"
    and "i \<noteq> []" and "req_body req ''id'' = Some (JStr i)"
    and "find (\<lambda>q. pid q = i) (posts st) = Some p"
  shows "\<exists>p'. find (\<lambda>q. pid q = i) (posts (snd (app e st req))) = Some p'
            \<and> pid p' = pid p
            \<and> author_firstName p' = author_firstName p
            \<and> author_lastName p' = author_lastName p
            \<and> created p' = created p
            \<and> (req_body req ''title'' = None \<longrightarrow> title p' = title p)
            \<and> (req_body req ''content'' = None \<longrightarrow> content p' = content p)
            \<and> users (snd (app e st req)) = users st
            \<and> map pid (posts (snd (app e st req))) = map pid (posts st)
            \<and> filter (\<lambda>q. pid q \<noteq> i) (posts (snd (app e st req)))
                = filter (\<lambda>q. pid q \<noteq> i) (posts st)"
proof -
  have pidp: "pid p = i" using assms(4) by (rule find_pid)
  have "snd (app e st req) = st \<or> snd (app e st req) = snd (put_posts_id e st i (req_body req))"
    using assms(1) by (simp add: app_def protected_def split: gate.splits)
  then consider (same) "snd (app e st req) = st"
    | (upd) t' c' where "apply_set e (req_body req ''title'') (title p) = Inr t'"
        "apply_set e (req_body req ''content'') (content p) = Inr c'"
        "snd (app e st req) =
           st\<lparr>posts := update_first (\<lambda>q. pid q = i)
                          (\<lambda>q. p\<lparr>title := t', content := c'\<rparr>) (posts st)\<rparr>"
    using put_posts_id_store [OF assms(4), of e "req_body req"] by auto
  then show ?thesis
  proof cases
    case same
    then show ?thesis using assms(4) by simp
  next
    case upd
    let ?p' = "p\<lparr>title := t', content := c'\<rparr>"
    have p': "pid ?p' = i" using pidp by simp
    have "find (\<lambda>q. pid q = i) (posts (snd (app e st req))) = Some ?p'"
      using upd(3) find_update_first [OF assms(4) p'] by simp
    moreover have "req_body req ''title'' = None \<longrightarrow> t' = title p"
      using upd(1) by (auto dest: apply_set_absent)
    moreover have "req_body req ''content'' = None \<longrightarrow> c' = content p"
      using upd(2) by (auto dest: apply_set_absent)
    moreover have "map pid (posts (snd (app e st req))) = map pid (posts st)"
      using upd(3) map_pid_update_first [OF p'] by simp
    moreover have "filter (\<lambda>q. pid q \<noteq> i) (posts (snd (app e st req)))
                     = filter (\<lambda>q. pid q \<noteq> i) (posts st)"
      using upd(3) filter_update_first [OF p'] by simp
    moreover have "users (snd (app e st req)) = users st"
      using upd(3) by simp
    ultimately show ?thesis by simp
  qed
qed

text \<open>
  The test "should update fields you send over", with a title only: the stored post
  gets the new title and keeps its content, author and creation time.
\<close>

theorem put_changes_only_fields_in_body_witness:
  "route (put_request ''p1'' [''id'' \<mapsto> JStr ''p1'', ''title'' \<mapsto> JStr ''T9'']) = PUT_posts_id ''p1''
   \<and> find (\<lambda>q. pid q = ''p1'') (posts seed_db) = Some seed_post
   \<and> app test_env seed_db (put_request ''p1'' [''id'' \<mapsto> JStr ''p1'', ''title'' \<mapsto> JStr ''T9''])
       = ([Call (BlogPost_findByIdAndUpdate_call ''p1'' (Some (JStr ''T9'')) None),
           Sent \<lparr>status = 201,
                 payload = JsonPost (PostRepr ''p1'' ''Kyle S'' (Some ''C1'') (Some ''T9'') 1)\<rparr>],
          seed_db\<lparr>posts := [seed_post\<lparr>title := Some ''T9''\<rparr>]\<rparr>)"
  using put_changes_only_fields_in_body
          [of "put_request ''p1'' [''id'' \<mapsto> JStr ''p1'', ''title'' \<mapsto> JStr ''T9'']" "''p1''"
              seed_db seed_post test_env]
        testboy_authorized
  by (simp add: put_request_def app_def protected_def put_posts_id_def
      BlogPost_findByIdAndUpdate_def then_json_def res_json_def apiRepr_def authorName_def
      trim_def is_space_def test_defs Let_def)

text \<open>
  What the update writes: for an authenticated request on an existing post with a
  well-formed id, a string \<open>title\<close> and a string \<open>content\<close> of the body are stored. The
  id check is not among the hypotheses: its 400 does not stop the handler.
\<close>

lemma put_sets_title_and_content:
  assumes "route req = PUT_posts_id i"
    and "passport_authenticate e st (credentials req) = Authorized u"
    and "validObjectId e i"
    and "find (\<lambda>q. pid q = i) (posts st) = Some p"
    and "req_body req ''title'' = Some (JStr t)" and "req_body req ''content'' = Some (JStr c)"
  shows "find (\<lambda>q. pid q = i) (posts (snd (app e st req)))
           = Some (p\<lparr>title := Some t, content := Some c\<rparr>)"
proof -
  have "pid (p\<lparr>title := Some t, content := Some c\<rparr>) = i"
    using find_pid [OF assms(4)] by simp
  from find_update_first [OF assms(4) this]
  show ?thesis using assms
    by (simp add: app_def protected_def put_posts_id_def BlogPost_findByIdAndUpdate_def
        Let_def res_json_def split: sum.splits)
qed

text \<open>
  Claim C10. For every authenticated \<open>PUT /posts/:id\<close> request with matching path and
  body ids whose id has no post in the store, the response is 500 (not 404, not 201):
  the update yields no post, serialising it raises, and the handler's \<open>catch\<close> answers
  with the generic error. The store is unchanged.
\<close>

theorem put_absent_post_is_500:
  assumes "route req = PUT_posts_id i"
    and "passport_authenticate e st (credentials req) = Authorized u"
    and "i \<noteq> []" and "req_body req ''id'' = Some (JStr i)"
    and "i \<notin> set (map pid (posts st))"
  shows "http_response (fst (app e st req)) =
           Some \<lparr>status = 500, payload = JsonMessage ''Something went wrong''\<rparr>
       \<and> snd (app e st req) = st"
  using assms(1-4) find_pid_None [OF assms(5)]
  by (auto simp: app_def protected_def put_posts_id_def BlogPost_findByIdAndUpdate_def
      catch_json_def res_json_def split: sum.splits prod.splits option.splits)

text \<open>\<open>testboy\<close> updates the post \<open>p9\<close>, which the seeded store does not have.\<close>

theorem put_absent_post_is_500_witness:
  "passport_authenticate test_env seed_db
      (credentials (put_request ''p9'' [''id'' \<mapsto> JStr ''p9'', ''title'' \<mapsto> JStr ''T9'']))
     = Authorized testboy
   \<and> ''p9'' \<notin> set (map pid (posts seed_db))
   \<and> http_response (fst (app test_env seed_db
        (put_request ''p9'' [''id'' \<mapsto> JStr ''p9'', ''title'' \<mapsto> JStr ''T9''])))
       = Some \<lparr>status = 500, payload = JsonMessage ''Something went wrong''\<rparr>
   \<and> snd (app test_env seed_db (put_request ''p9'' [''id'' \<mapsto> JStr ''p9'', ''title'' \<mapsto> JStr ''T9'']))
       = seed_db"
  using put_absent_post_is_500
          [of "put_request ''p9'' [''id'' \<mapsto> JStr ''p9'', ''title'' \<mapsto> JStr ''T9'']" "''p9''"
              test_env seed_db testboy]
        testboy_authorized
  by (simp add: put_request_def seed_db_def seed_post_def)

end
